theory Spec2Isabelle
  imports Main
begin

section \<open>The browser connection lifecycle of \<open>browser_use/browser/browser.py\<close>\<close>

text \<open>
  The class \<open>Browser\<close> holds two references, \<open>playwright\<close> (the driver) and
  \<open>playwright_browser\<close> (the connection handle), and talks to the outside world through
  Playwright, \<open>requests\<close>, \<open>subprocess\<close>, \<open>asyncio.sleep\<close>, \<open>gc\<close> and the logger.
  The embedding makes the outside world explicit:
  \<^item> every external call appends an \<open>event\<close> to a trace, in program order;
  \<^item> the outcome of every external call that can fail is read from an environment
    \<open>env\<close>, one oracle per kind of call, indexed by how many calls of that kind the trace
    already holds;
  \<^item> a Python exception is a value of type \<open>exn\<close>, and a coroutine returns
    \<open>exn + 'a\<close> (\<open>Inl\<close> is a raise) together with the new trace and, where it
    assigns attributes, the new object.
  Python's leading underscore is not an Isabelle identifier: \<open>_init\<close>, \<open>_setup_cdp\<close>,
  \<open>_setup_browser\<close>, ... lose it, and \<open>_force_keep_browser_alive\<close> too.
\<close>

subsection \<open>Exceptions\<close>

text \<open>
  \<open>requests.get\<close> raises subclasses of \<open>requests.RequestException\<close>. In the library's
  hierarchy \<open>ConnectTimeout\<close> derives from both \<open>ConnectionError\<close> and \<open>Timeout\<close>, while
  \<open>ReadTimeout\<close> derives from \<open>Timeout\<close> only. Playwright raises its own \<open>Error\<close> and
  the subclass \<open>TimeoutError\<close>; \<open>subprocess.Popen\<close> raises \<open>OSError\<close>. All of them
  are subclasses of \<open>Exception\<close>. A coroutine whose task is cancelled while it waits at
  an \<open>await\<close> gets \<open>asyncio.CancelledError\<close> raised there, and that class derives from
  \<open>BaseException\<close> only.
\<close>

datatype requests_exn =
    ConnectionError string
  | ConnectTimeout string
  | ReadTimeout string
  | RequestException string

datatype playwright_exn =
    PlaywrightError string
  | PlaywrightTimeoutError string

datatype exn =
    ValueError string
  | RuntimeError string
  | Requests requests_exn
  | Playwright playwright_exn
  | OSError string
  | CancelledError

text \<open>\<open>isinstance(e, Exception)\<close>, the test of \<open>except Exception\<close>.\<close>

fun is_Exception :: "exn \<Rightarrow> bool" where
  "is_Exception CancelledError = False"
| "is_Exception e = True"

text \<open>\<open>isinstance(e, requests.ConnectionError)\<close>, the test of \<open>except requests.ConnectionError\<close>.\<close>

fun is_ConnectionError :: "exn \<Rightarrow> bool" where
  "is_ConnectionError (Requests (ConnectionError m)) = True"
| "is_ConnectionError (Requests (ConnectTimeout m)) = True"
| "is_ConnectionError e = False"

text \<open>\<open>str(e)\<close>, as the f-strings of the log messages format an exception.\<close>

fun str_requests :: "requests_exn \<Rightarrow> string" where
  "str_requests (ConnectionError m) = m"
| "str_requests (ConnectTimeout m) = m"
| "str_requests (ReadTimeout m) = m"
| "str_requests (RequestException m) = m"

fun str_playwright :: "playwright_exn \<Rightarrow> string" where
  "str_playwright (PlaywrightError m) = m"
| "str_playwright (PlaywrightTimeoutError m) = m"

fun str_exn :: "exn \<Rightarrow> string" where
  "str_exn (ValueError m) = m"
| "str_exn (RuntimeError m) = m"
| "str_exn (Requests e) = str_requests e"
| "str_exn (Playwright e) = str_playwright e"
| "str_exn (OSError m) = m"
| "str_exn CancelledError = []"

subsection \<open>Configuration and object state\<close>

datatype ProxySettings =
  ProxySettings (server: string) (bypass: "string option")
    (username: "string option") (password: "string option")

text \<open>
  The dataclass \<open>BrowserConfig\<close>. The field \<open>new_context_config\<close> is only handed on to
  browser contexts and is left out.
\<close>

record BrowserConfig =
  headless :: bool
  disable_security :: bool
  extra_chromium_args :: "string list"
  chrome_instance_path :: "string option"
  wss_url :: "string option"
  cdp_url :: "string option"
  enable_adblock :: bool
  proxy :: "ProxySettings option"
  force_keep_browser_alive :: bool

definition default_config :: BrowserConfig where
  "default_config =
     \<lparr>headless = False, disable_security = True, extra_chromium_args = [],
      chrome_instance_path = None, wss_url = None, cdp_url = None,
      enable_adblock = False, proxy = None, force_keep_browser_alive = False\<rparr>"

text \<open>Playwright objects are known by their identity only.\<close>

type_synonym driver = nat
type_synonym handle = nat

record Browser =
  config :: BrowserConfig
  playwright :: "driver option"
  playwright_browser :: "handle option"
  disable_security_args :: "string list"

text \<open>Truth value of a \<open>str | None\<close>: \<open>None\<close> and the empty string are false.\<close>

fun truthy :: "string option \<Rightarrow> bool" where
  "truthy None = False"
| "truthy (Some s) = (s \<noteq> [])"

subsection \<open>Events and the environment\<close>

datatype level = DEBUG | INFO | ERROR

datatype event =
    PlaywrightStart
  | ConnectOverCdp driver string "int option"
  | Connect driver string
  | Launch driver bool "string list" "ProxySettings option"
  | RequestsGet string int
  | Popen "string list"
  | Sleep int
  | BrowserClose handle
  | PlaywrightStop driver
  | GcCollect
  | Log level string

fun is_start :: "event \<Rightarrow> bool" where
  "is_start PlaywrightStart = True"
| "is_start e = False"

text \<open>The three calls that produce a \<open>PlaywrightBrowser\<close>.\<close>

fun is_attach :: "event \<Rightarrow> bool" where
  "is_attach (ConnectOverCdp pw u tm) = True"
| "is_attach (Connect pw u) = True"
| "is_attach (Launch pw h a p) = True"
| "is_attach e = False"

fun is_get :: "event \<Rightarrow> bool" where
  "is_get (RequestsGet u tm) = True"
| "is_get e = False"

fun is_popen :: "event \<Rightarrow> bool" where
  "is_popen (Popen a) = True"
| "is_popen e = False"

fun is_sleep :: "event \<Rightarrow> bool" where
  "is_sleep (Sleep n) = True"
| "is_sleep e = False"

fun is_close :: "event \<Rightarrow> bool" where
  "is_close (BrowserClose h) = True"
| "is_close e = False"

fun is_stop :: "event \<Rightarrow> bool" where
  "is_stop (PlaywrightStop pw) = True"
| "is_stop e = False"

definition calls :: "(event \<Rightarrow> bool) \<Rightarrow> event list \<Rightarrow> nat" where
  "calls p t = length (filter p t)"

text \<open>
  The environment: \<open>start_result env k\<close> is what the call of \<open>async_playwright().start()\<close>
  does that is made when \<open>k\<close> such calls have been made before, and so on. \<open>http_get\<close>
  gives the status code of the response. \<open>close_cancelled env k\<close> says that the task is
  cancelled while it waits for that call of the browser's \<open>close\<close>, when the call itself
  does not fail, and \<open>stop_cancelled\<close> says the same of the driver's \<open>stop\<close>.
  Cancellation is part of the environment for the two \<open>await\<close>s of \<open>close\<close>; the
  creation path is followed in runs that are not cancelled.
\<close>

record env =
  start_result :: "nat \<Rightarrow> playwright_exn + driver"
  attach_result :: "nat \<Rightarrow> playwright_exn + handle"
  http_get :: "nat \<Rightarrow> requests_exn + int"
  popen_result :: "nat \<Rightarrow> string option"
  close_result :: "nat \<Rightarrow> playwright_exn option"
  stop_result :: "nat \<Rightarrow> playwright_exn option"
  close_cancelled :: "nat \<Rightarrow> bool"
  stop_cancelled :: "nat \<Rightarrow> bool"

type_synonym trace = "event list"

fun raise_playwright :: "playwright_exn + 'a \<Rightarrow> exn + 'a" where
  "raise_playwright (Inl e) = Inl (Playwright e)"
| "raise_playwright (Inr x) = Inr x"

fun raise_requests :: "requests_exn + 'a \<Rightarrow> exn + 'a" where
  "raise_requests (Inl e) = Inl (Requests e)"
| "raise_requests (Inr x) = Inr x"

definition async_playwright_start :: "env \<Rightarrow> trace \<Rightarrow> (exn + driver) \<times> trace" where
  "async_playwright_start env t =
     (raise_playwright (start_result env (calls is_start t)), t @ [PlaywrightStart])"

definition connect_over_cdp ::
  "env \<Rightarrow> driver \<Rightarrow> string \<Rightarrow> int option \<Rightarrow> trace \<Rightarrow> (exn + handle) \<times> trace" where
  "connect_over_cdp env pw url tm t =
     (raise_playwright (attach_result env (calls is_attach t)), t @ [ConnectOverCdp pw url tm])"

definition connect :: "env \<Rightarrow> driver \<Rightarrow> string \<Rightarrow> trace \<Rightarrow> (exn + handle) \<times> trace" where
  "connect env pw url t =
     (raise_playwright (attach_result env (calls is_attach t)), t @ [Connect pw url])"

definition launch ::
  "env \<Rightarrow> driver \<Rightarrow> bool \<Rightarrow> string list \<Rightarrow> ProxySettings option \<Rightarrow> trace
    \<Rightarrow> (exn + handle) \<times> trace" where
  "launch env pw h args p t =
     (raise_playwright (attach_result env (calls is_attach t)), t @ [Launch pw h args p])"

definition requests_get :: "env \<Rightarrow> string \<Rightarrow> int \<Rightarrow> trace \<Rightarrow> (exn + int) \<times> trace" where
  "requests_get env url tm t =
     (raise_requests (http_get env (calls is_get t)), t @ [RequestsGet url tm])"

definition subprocess_Popen :: "env \<Rightarrow> string list \<Rightarrow> trace \<Rightarrow> (exn + unit) \<times> trace" where
  "subprocess_Popen env args t =
     ((case popen_result env (calls is_popen t) of
         None \<Rightarrow> Inr () | Some m \<Rightarrow> Inl (OSError m)),
      t @ [Popen args])"

definition browser_close :: "env \<Rightarrow> handle \<Rightarrow> trace \<Rightarrow> (exn + unit) \<times> trace" where
  "browser_close env h t =
     ((case close_result env (calls is_close t) of
         Some e \<Rightarrow> Inl (Playwright e)
       | None \<Rightarrow> if close_cancelled env (calls is_close t) then Inl CancelledError else Inr ()),
      t @ [BrowserClose h])"

definition playwright_stop :: "env \<Rightarrow> driver \<Rightarrow> trace \<Rightarrow> (exn + unit) \<times> trace" where
  "playwright_stop env pw t =
     ((case stop_result env (calls is_stop t) of
         Some e \<Rightarrow> Inl (Playwright e)
       | None \<Rightarrow> if stop_cancelled env (calls is_stop t) then Inl CancelledError else Inr ()),
      t @ [PlaywrightStop pw])"

subsection \<open>\<open>Browser.__init__\<close>\<close>

definition Browser_init :: "BrowserConfig \<Rightarrow> trace \<Rightarrow> Browser \<times> trace" where
  "Browser_init cfg t =
     (\<lparr>config = cfg, playwright = None, playwright_browser = None,
       disable_security_args =
         (if disable_security cfg
          then [''--disable-web-security'', ''--disable-site-isolation-trials'',
                ''--disable-features=IsolateOrigins,site-per-process'']
          else [])\<rparr>,
      t @ [Log DEBUG ''Initializing new browser''])"

subsection \<open>The four strategies\<close>

definition setup_cdp :: "env \<Rightarrow> Browser \<Rightarrow> driver \<Rightarrow> trace \<Rightarrow> (exn + handle) \<times> trace" where
  "setup_cdp env self pw t =
     (case cdp_url (config self) of
        None \<Rightarrow> (Inl (ValueError ''CDP URL is required''), t)
      | Some url \<Rightarrow>
          if url = [] then (Inl (ValueError ''CDP URL is required''), t)
          else connect_over_cdp env pw url None
                 (t @ [Log INFO (''Connecting to remote browser via CDP '' @ url)]))"

definition setup_wss :: "env \<Rightarrow> Browser \<Rightarrow> driver \<Rightarrow> trace \<Rightarrow> (exn + handle) \<times> trace" where
  "setup_wss env self pw t =
     (case wss_url (config self) of
        None \<Rightarrow> (Inl (ValueError ''WSS URL is required''), t)
      | Some url \<Rightarrow>
          if url = [] then (Inl (ValueError ''WSS URL is required''), t)
          else connect env pw url
                 (t @ [Log INFO (''Connecting to remote browser via WSS '' @ url)]))"

definition version_url :: string where
  "version_url = ''http://localhost:9222/json/version''"

definition endpoint_url :: string where
  "endpoint_url = ''http://localhost:9222''"

text \<open>
  The body of the first \<open>try\<close> of \<open>_setup_browser_with_instance\<close> (lines 210 to 218):
  \<open>Inr (Some b)\<close> is \<open>return browser\<close>, \<open>Inr None\<close> is leaving the block at its end.
\<close>

definition reuse_existing ::
  "env \<Rightarrow> driver \<Rightarrow> trace \<Rightarrow> (exn + handle option) \<times> trace" where
  "reuse_existing env pw t =
     (case requests_get env version_url 2 t of
        (Inl e, t1) \<Rightarrow> (Inl e, t1)
      | (Inr status_code, t1) \<Rightarrow>
          if status_code = 200 then
            (case connect_over_cdp env pw endpoint_url (Some 20000)
                    (t1 @ [Log INFO ''Reusing existing Chrome instance'']) of
               (Inl e, t2) \<Rightarrow> (Inl e, t2)
             | (Inr browser, t2) \<Rightarrow> (Inr (Some browser), t2))
          else (Inr None, t1))"

text \<open>
  The loop \<open>for _ in range(10)\<close> (lines 234 to 241), with the number of iterations left
  as its argument. \<open>break\<close> ends it; an exception that is not a
  \<open>requests.ConnectionError\<close> leaves it and the function.
\<close>

fun poll :: "env \<Rightarrow> nat \<Rightarrow> trace \<Rightarrow> (exn + unit) \<times> trace" where
  "poll env 0 t = (Inr (), t)"
| "poll env (Suc n) t =
     (case requests_get env version_url 2 t of
        (Inr status_code, t1) \<Rightarrow>
          if status_code = 200 then (Inr (), t1)
          else poll env n (t1 @ [Sleep 1])
      | (Inl e, t1) \<Rightarrow>
          if is_ConnectionError e then poll env n (t1 @ [Sleep 1])
          else (Inl e, t1))"

definition chrome_debug_message :: string where
  "chrome_debug_message = '' To start chrome in Debug mode, you need to close all existing Chrome instances and try again otherwise we can not connect to the instance.''"

text \<open>Lines 222 to 254: spawn, poll, final attach.\<close>

definition start_new_instance ::
  "env \<Rightarrow> Browser \<Rightarrow> driver \<Rightarrow> string \<Rightarrow> trace \<Rightarrow> (exn + handle) \<times> trace" where
  "start_new_instance env self pw path t =
     (case subprocess_Popen env
             ([path, ''--remote-debugging-port=9222''] @ extra_chromium_args (config self)) t of
        (Inl e, t1) \<Rightarrow> (Inl e, t1)
      | (Inr u, t1) \<Rightarrow>
          (case poll env 10 t1 of
             (Inl e, t2) \<Rightarrow> (Inl e, t2)
           | (Inr u, t2) \<Rightarrow>
               (case connect_over_cdp env pw endpoint_url (Some 20000) t2 of
                  (Inr browser, t3) \<Rightarrow> (Inr browser, t3)
                | (Inl e, t3) \<Rightarrow>
                    if is_Exception e then
                      (Inl (RuntimeError chrome_debug_message),
                       t3 @ [Log ERROR (''Failed to start a new Chrome instance.: '' @ str_exn e)])
                    else (Inl e, t3))))"

definition setup_browser_with_instance ::
  "env \<Rightarrow> Browser \<Rightarrow> driver \<Rightarrow> trace \<Rightarrow> (exn + handle) \<times> trace" where
  "setup_browser_with_instance env self pw t =
     (case chrome_instance_path (config self) of
        None \<Rightarrow> (Inl (ValueError ''Chrome instance path is required''), t)
      | Some path \<Rightarrow>
          if path = [] then (Inl (ValueError ''Chrome instance path is required''), t)
          else
            (case reuse_existing env pw t of
               (Inr (Some browser), t1) \<Rightarrow> (Inr browser, t1)
             | (Inr None, t1) \<Rightarrow> start_new_instance env self pw path t1
             | (Inl e, t1) \<Rightarrow>
                 if is_ConnectionError e
                 then start_new_instance env self pw path
                        (t1 @ [Log DEBUG ''No existing Chrome instance found, starting a new one''])
                 else (Inl e, t1)))"

definition standard_args :: "string list" where
  "standard_args =
     [''--no-sandbox'',
      ''--disable-blink-features=AutomationControlled'',
      ''--disable-infobars'',
      ''--disable-background-timer-throttling'',
      ''--disable-popup-blocking'',
      ''--disable-backgrounding-occluded-windows'',
      ''--disable-renderer-backgrounding'',
      ''--disable-window-activation'',
      ''--disable-focus-on-load'',
      ''--no-first-run'',
      ''--no-default-browser-check'',
      ''--no-startup-window'',
      ''--window-position=0,0'']"

definition setup_standard_browser ::
  "env \<Rightarrow> Browser \<Rightarrow> driver \<Rightarrow> trace \<Rightarrow> (exn + handle) \<times> trace" where
  "setup_standard_browser env self pw t =
     launch env pw (headless (config self))
       (standard_args @ disable_security_args self @ extra_chromium_args (config self))
       (proxy (config self)) t"

subsection \<open>Strategy selection, initialisation, close\<close>

text \<open>
  The handler \<open>except Exception\<close> of \<open>_setup_browser\<close>: log the exception and raise it
  again.
\<close>

fun log_and_reraise :: "(exn + handle) \<times> trace \<Rightarrow> (exn + handle) \<times> trace" where
  "log_and_reraise (Inl e, t) =
     (if is_Exception e
      then (Inl e, t @ [Log ERROR (''Failed to initialize Playwright browser: '' @ str_exn e)])
      else (Inl e, t))"
| "log_and_reraise (Inr b, t) = (Inr b, t)"

definition setup_browser :: "env \<Rightarrow> Browser \<Rightarrow> driver \<Rightarrow> trace \<Rightarrow> (exn + handle) \<times> trace" where
  "setup_browser env self pw t =
     log_and_reraise
       (if truthy (cdp_url (config self)) then setup_cdp env self pw t
        else if truthy (wss_url (config self)) then setup_wss env self pw t
        else if truthy (chrome_instance_path (config self))
             then setup_browser_with_instance env self pw t
        else setup_standard_browser env self pw t)"

definition init :: "env \<Rightarrow> Browser \<Rightarrow> trace \<Rightarrow> (exn + handle) \<times> Browser \<times> trace" where
  "init env self t =
     (case async_playwright_start env t of
        (Inl e, t1) \<Rightarrow> (Inl e, self, t1)
      | (Inr pw, t1) \<Rightarrow>
          (case setup_browser env self pw t1 of
             (Inl e, t2) \<Rightarrow> (Inl e, self, t2)
           | (Inr browser, t2) \<Rightarrow>
               (Inr browser, self\<lparr>playwright := Some pw, playwright_browser := Some browser\<rparr>, t2)))"

definition get_playwright_browser ::
  "env \<Rightarrow> Browser \<Rightarrow> trace \<Rightarrow> (exn + handle) \<times> Browser \<times> trace" where
  "get_playwright_browser env self t =
     (case playwright_browser self of
        None \<Rightarrow> init env self t
      | Some b \<Rightarrow> (Inr b, self, t))"

text \<open>
  The \<open>try\<close> block of \<open>close\<close> (lines 301 to 307). \<open>del\<close> removes the attribute; nothing
  reads it before the \<open>finally\<close> block assigns \<open>None\<close> to it, so the model leaves the
  field alone here.
\<close>

definition close_body :: "env \<Rightarrow> Browser \<Rightarrow> trace \<Rightarrow> (exn + unit) \<times> trace" where
  "close_body env self t =
     (if \<not> force_keep_browser_alive (config self) then
        (case (case playwright_browser self of
                 Some b \<Rightarrow> browser_close env b t
               | None \<Rightarrow> (Inr (), t)) of
           (Inl e, t1) \<Rightarrow> (Inl e, t1)
         | (Inr u, t1) \<Rightarrow>
             (case playwright self of
                Some pw \<Rightarrow> playwright_stop env pw t1
              | None \<Rightarrow> (Inr (), t1)))
      else (Inr (), t))"

text \<open>
  \<open>close\<close>: the handler \<open>except Exception\<close> takes the exceptions that are instances of
  \<open>Exception\<close>, logs them and ends normally; any other exception goes on to the caller.
  The \<open>finally\<close> block runs on every path, before the exception leaves.
\<close>

definition close :: "env \<Rightarrow> Browser \<Rightarrow> trace \<Rightarrow> (exn + unit) \<times> Browser \<times> trace" where
  "close env self t =
     (let (r, t1) = close_body env self t;
          (r', t2) = (case r of
                        Inl e \<Rightarrow>
                          if is_Exception e
                          then (Inr (), t1 @ [Log DEBUG (''Failed to close browser properly: ''
                                                          @ str_exn e)])
                          else (Inl e, t1)
                      | Inr u \<Rightarrow> (Inr u, t1))
      in (r', self\<lparr>playwright_browser := None, playwright := None\<rparr>, t2 @ [GcCollect]))"

subsection \<open>Callers\<close>

text \<open>
  \<open>n\<close> calls of \<open>get_playwright_browser\<close> made one after another, each awaited before
  the next is made.
\<close>

fun sequential_calls ::
  "env \<Rightarrow> nat \<Rightarrow> Browser \<Rightarrow> trace \<Rightarrow> (exn + handle) list \<times> Browser \<times> trace" where
  "sequential_calls env 0 self t = ([], self, t)"
| "sequential_calls env (Suc n) self t =
     (case get_playwright_browser env self t of
        (r, s1, t1) \<Rightarrow>
          (case sequential_calls env n s1 t1 of
             (rs, s2, t2) \<Rightarrow> (r # rs, s2, t2)))"

text \<open>
  Calls that overlap. A coroutine runs until it has to wait and is resumed later with the
  result, and other coroutines of the event loop run in between. A call of
  \<open>get_playwright_browser\<close> waits at the two \<open>await\<close>s of \<open>_init\<close>: a \<open>task\<close> is
  such a call, either not yet run, or waiting for \<open>async_playwright().start()\<close>, or
  waiting for \<open>self._setup_browser(playwright)\<close> with the local variable \<open>playwright\<close>,
  or finished. The external calls of an awaited operation are made when the operation is
  called, and its result is kept in the waiting task. The \<open>await\<close>s inside
  \<open>_setup_browser\<close> are not split further.
\<close>

datatype task =
    Created
  | AwaitStart "exn + driver"
  | AwaitSetup driver "exn + handle"
  | Done "exn + handle"

fun resume :: "env \<Rightarrow> task \<Rightarrow> Browser \<Rightarrow> trace \<Rightarrow> task \<times> Browser \<times> trace" where
  "resume env Created self t =
     (case playwright_browser self of
        Some b \<Rightarrow> (Done (Inr b), self, t)
      | None \<Rightarrow> (case async_playwright_start env t of (r, t1) \<Rightarrow> (AwaitStart r, self, t1)))"
| "resume env (AwaitStart r) self t =
     (case r of
        Inl e \<Rightarrow> (Done (Inl e), self, t)
      | Inr pw \<Rightarrow> (case setup_browser env self pw t of (r2, t1) \<Rightarrow> (AwaitSetup pw r2, self, t1)))"
| "resume env (AwaitSetup pw r) self t =
     (case r of
        Inl e \<Rightarrow> (Done (Inl e), self, t)
      | Inr browser \<Rightarrow>
          (Done (Inr browser),
           self\<lparr>playwright := Some pw, playwright_browser := Some browser\<rparr>, t))"
| "resume env (Done r) self t = (Done r, self, t)"

text \<open>The event loop: a schedule names the task that runs next, one entry per step.\<close>

fun run_schedule ::
  "env \<Rightarrow> nat list \<Rightarrow> task list \<times> Browser \<times> trace \<Rightarrow> task list \<times> Browser \<times> trace" where
  "run_schedule env [] st = st"
| "run_schedule env (i # sched) (tasks, self, t) =
     (if i < length tasks then
        (case resume env (tasks ! i) self t of
           (tk, s1, t1) \<Rightarrow> run_schedule env sched (tasks[i := tk], s1, t1))
      else run_schedule env sched (tasks, self, t))"

subsection \<open>Vocabulary of the statements\<close>

text \<open>
  The four strategies of the specification and its precedence order, "first matching
  wins", where a field is configured when it holds a non-empty string.
\<close>

datatype strategy = RemoteAttach | SocketAttach | LocalInstanceAttach | StandardLaunch

definition precedence_spec :: "BrowserConfig \<Rightarrow> strategy" where
  "precedence_spec cfg =
     (if truthy (cdp_url cfg) then RemoteAttach
      else if truthy (wss_url cfg) then SocketAttach
      else if truthy (chrome_instance_path cfg) then LocalInstanceAttach
      else StandardLaunch)"

fun run_strategy ::
  "strategy \<Rightarrow> env \<Rightarrow> Browser \<Rightarrow> driver \<Rightarrow> trace \<Rightarrow> (exn + handle) \<times> trace" where
  "run_strategy RemoteAttach env self pw t = setup_cdp env self pw t"
| "run_strategy SocketAttach env self pw t = setup_wss env self pw t"
| "run_strategy LocalInstanceAttach env self pw t = setup_browser_with_instance env self pw t"
| "run_strategy StandardLaunch env self pw t = setup_standard_browser env self pw t"

text \<open>
  A probe outcome that both probing sites of the reuse-or-launch strategy pass over: a
  status code other than 200, or an exception that \<open>except requests.ConnectionError\<close>
  catches.
\<close>

definition unreachable :: "requests_exn + int \<Rightarrow> bool" where
  "unreachable r =
     (case r of
        Inr status_code \<Rightarrow> status_code \<noteq> 200
      | Inl e \<Rightarrow> is_ConnectionError (Requests e))"

subsection \<open>Concrete environments and objects\<close>

text \<open>
  Nothing listens on port 9222; every Playwright call succeeds and returns a new object,
  numbered in the order of creation; no task is cancelled.
\<close>

definition fresh_env :: env where
  "fresh_env =
     \<lparr>start_result = Inr, attach_result = Inr,
      http_get = (\<lambda>k. Inl (ConnectionError ''Connection refused'')),
      popen_result = (\<lambda>k. None), close_result = (\<lambda>k. None), stop_result = (\<lambda>k. None),
      close_cancelled = (\<lambda>k. False), stop_cancelled = (\<lambda>k. False)\<rparr>"

text \<open>Nothing listens on port 9222 and no attach or launch succeeds.\<close>

definition refused_env :: env where
  "refused_env =
     fresh_env\<lparr>attach_result := (\<lambda>k. Inl (PlaywrightError ''connect ECONNREFUSED''))\<rparr>"

text \<open>A debug-enabled browser is already running.\<close>

definition running_env :: env where
  "running_env = fresh_env\<lparr>http_get := (\<lambda>k. Inr 200)\<rparr>"

text \<open>Port 9222 accepts the connection but no response arrives within the two seconds.\<close>

definition silent_env :: env where
  "silent_env = fresh_env\<lparr>http_get := (\<lambda>k. Inl (ReadTimeout ''Read timed out.''))\<rparr>"

text \<open>As \<open>silent_env\<close>, once a process has been spawned; the first probe is refused.\<close>

definition slow_start_env :: env where
  "slow_start_env =
     fresh_env\<lparr>http_get := (\<lambda>k. if k = 0 then Inl (ConnectionError ''Connection refused'')
                                  else Inl (ReadTimeout ''Read timed out.''))\<rparr>"

text \<open>Closing the browser fails.\<close>

definition broken_close_env :: env where
  "broken_close_env =
     fresh_env\<lparr>close_result := (\<lambda>k. Some (PlaywrightError ''Target closed''))\<rparr>"

text \<open>Stopping the driver fails.\<close>

definition broken_stop_env :: env where
  "broken_stop_env =
     fresh_env\<lparr>stop_result := (\<lambda>k. Some (PlaywrightError ''Connection closed''))\<rparr>"

text \<open>The task that runs \<open>close\<close> is cancelled while it waits for the browser to close.\<close>

definition cancelling_env :: env where
  "cancelling_env = fresh_env\<lparr>close_cancelled := (\<lambda>k. True)\<rparr>"

definition chrome_path :: string where
  "chrome_path = ''/usr/bin/google-chrome''"

definition standard_browser :: Browser where
  "standard_browser = fst (Browser_init default_config [])"

definition instance_browser :: Browser where
  "instance_browser =
     fst (Browser_init (default_config\<lparr>chrome_instance_path := Some chrome_path\<rparr>) [])"

text \<open>All three strategy fields set at once.\<close>

definition crowded_browser :: Browser where
  "crowded_browser =
     fst (Browser_init
            (default_config\<lparr>chrome_instance_path := Some chrome_path,
               wss_url := Some ''ws://remote:3000'',
               cdp_url := Some ''http://remote:9222''\<rparr>) [])"

definition connected_browser :: Browser where
  "connected_browser = standard_browser\<lparr>playwright := Some 0, playwright_browser := Some 0\<rparr>"

definition kept_alive_browser :: Browser where
  "kept_alive_browser =
     (fst (Browser_init (default_config\<lparr>force_keep_browser_alive := True\<rparr>) []))
       \<lparr>playwright := Some 0, playwright_browser := Some 0\<rparr>"

section \<open>Counting calls in a trace\<close>

lemma calls_Nil [simp]: "calls p [] = 0"
  by (simp add: calls_def)

lemma calls_append [simp]: "calls p (t @ u) = calls p t + calls p u"
  by (simp add: calls_def)

lemma calls_Cons [simp]: "calls p (e # t) = (if p e then Suc (calls p t) else calls p t)"
  by (simp add: calls_def)

section \<open>An existing handle is returned as it is\<close>

text \<open>
  C6. When \<open>playwright_browser\<close> is not \<open>None\<close>, \<open>get_playwright_browser\<close> returns that
  handle, leaves the object as it is and makes no external call: the trace does not grow,
  so no strategy is selected or run and nothing is created.
\<close>

theorem get_playwright_browser_idempotent:
  "playwright_browser self = Some b \<Longrightarrow> get_playwright_browser env self t = (Inr b, self, t)"
  by (simp add: get_playwright_browser_def)

theorem get_playwright_browser_idempotent_witness:
  "playwright_browser connected_browser = Some 0
   \<and> get_playwright_browser refused_env connected_browser [] = (Inr 0, connected_browser, [])"
  using get_playwright_browser_idempotent [of connected_browser 0 refused_env "[]"]
  by (simp add: connected_browser_def)

section \<open>Closing\<close>

lemma close_clears:
  "fst (snd (close env self t)) = self\<lparr>playwright_browser := None, playwright := None\<rparr>"
  by (simp add: close_def split: prod.splits sum.splits)

lemma close_cleared:
  "playwright_browser self = None \<Longrightarrow> playwright self = None \<Longrightarrow>
     close env self t = (Inr (), self, t @ [GcCollect])"
  by (simp add: close_def close_body_def)

text \<open>What the \<open>try\<close> block of \<open>close\<close> can raise, and when it is a cancellation.\<close>

lemma close_body_raises:
  assumes "fst (close_body env self t) = Inl e"
  shows "(\<exists>pe. e = Playwright pe)
     \<or> (e = CancelledError
          \<and> (close_cancelled env (calls is_close t) \<or> stop_cancelled env (calls is_stop t)))"
  using assms
  by (auto simp: close_body_def browser_close_def playwright_stop_def
      split: if_splits option.splits)

lemma close_raises:
  assumes "fst (close env self t) = Inl e"
  shows "e = CancelledError
     \<and> (close_cancelled env (calls is_close t) \<or> stop_cancelled env (calls is_stop t))"
proof -
  obtain r t1 where b: "close_body env self t = (r, t1)"
    by (cases "close_body env self t")
  from assms b have r: "r = Inl e" and ne: "\<not> is_Exception e"
    by (auto simp: close_def split: sum.splits if_splits)
  from b r have "fst (close_body env self t) = Inl e"
    by simp
  from close_body_raises [OF this] ne show ?thesis
    by auto
qed

text \<open>
  C5, as the code has it. \<open>close\<close> always leaves both references \<open>None\<close>. It returns
  normally unless the task is cancelled while it waits for the browser's \<open>close\<close> or the
  driver's \<open>stop\<close>, and a cancellation is the only thing it ever raises. An error of
  the browser's \<open>close\<close> is logged at level debug and goes no further, and so is an error
  of the driver's \<open>stop\<close>, which is called once the browser is closed or when there is no
  browser. A second \<open>close\<close> right after the first returns normally, leaves the cleared
  object as it is and calls nothing but the garbage collector; so does a \<open>close\<close> on an
  object that never connected.
\<close>

theorem close_swallows_exceptions:
  "playwright_browser (fst (snd (close env self t))) = None
   \<and> playwright (fst (snd (close env self t))) = None
   \<and> (\<not> close_cancelled env (calls is_close t) \<and> \<not> stop_cancelled env (calls is_stop t)
        \<longrightarrow> fst (close env self t) = Inr ())
   \<and> (\<forall>x. fst (close env self t) = Inl x \<longrightarrow> x = CancelledError)
   \<and> (\<not> force_keep_browser_alive (config self) \<and> playwright_browser self = Some b
        \<and> close_result env (calls is_close t) = Some e
        \<longrightarrow> close env self t =
              (Inr (), self\<lparr>playwright_browser := None, playwright := None\<rparr>,
               t @ [BrowserClose b,
                    Log DEBUG (''Failed to close browser properly: '' @ str_playwright e),
                    GcCollect]))
   \<and> (\<not> force_keep_browser_alive (config self) \<and> playwright self = Some pw
        \<and> stop_result env (calls is_stop t) = Some e'
        \<and> (playwright_browser self = None
             \<or> close_result env (calls is_close t) = None
                \<and> \<not> close_cancelled env (calls is_close t))
        \<longrightarrow> close env self t =
              (Inr (), self\<lparr>playwright_browser := None, playwright := None\<rparr>,
               t @ (case playwright_browser self of Some h \<Rightarrow> [BrowserClose h] | None \<Rightarrow> [])
                 @ [PlaywrightStop pw,
                    Log DEBUG (''Failed to close browser properly: '' @ str_playwright e'),
                    GcCollect]))
   \<and> (case close env self t of
         (r1, s1, t1) \<Rightarrow> close env s1 t1 = (Inr (), s1, t1 @ [GcCollect]))
   \<and> close env (fst (Browser_init cfg t0)) t
       = (Inr (), fst (Browser_init cfg t0), t @ [GcCollect])"
proof (intro conjI)
  show "playwright_browser (fst (snd (close env self t))) = None"
    by (simp add: close_clears)
  show "playwright (fst (snd (close env self t))) = None"
    by (simp add: close_clears)
  show "\<not> close_cancelled env (calls is_close t) \<and> \<not> stop_cancelled env (calls is_stop t)
        \<longrightarrow> fst (close env self t) = Inr ()"
  proof
    assume nc: "\<not> close_cancelled env (calls is_close t) \<and> \<not> stop_cancelled env (calls is_stop t)"
    show "fst (close env self t) = Inr ()"
    proof (cases "fst (close env self t)")
      case (Inl x)
      from close_raises [OF this] nc show ?thesis
        by simp
    next
      case (Inr u)
      then show ?thesis by simp
    qed
  qed
  show "\<forall>x. fst (close env self t) = Inl x \<longrightarrow> x = CancelledError"
    using close_raises [of env self t] by blast
  show "\<not> force_keep_browser_alive (config self) \<and> playwright_browser self = Some b
        \<and> close_result env (calls is_close t) = Some e
        \<longrightarrow> close env self t =
              (Inr (), self\<lparr>playwright_browser := None, playwright := None\<rparr>,
               t @ [BrowserClose b,
                    Log DEBUG (''Failed to close browser properly: '' @ str_playwright e),
                    GcCollect])"
    by (simp add: close_def close_body_def browser_close_def)
  show "\<not> force_keep_browser_alive (config self) \<and> playwright self = Some pw
        \<and> stop_result env (calls is_stop t) = Some e'
        \<and> (playwright_browser self = None
             \<or> close_result env (calls is_close t) = None
                \<and> \<not> close_cancelled env (calls is_close t))
        \<longrightarrow> close env self t =
              (Inr (), self\<lparr>playwright_browser := None, playwright := None\<rparr>,
               t @ (case playwright_browser self of Some h \<Rightarrow> [BrowserClose h] | None \<Rightarrow> [])
                 @ [PlaywrightStop pw,
                    Log DEBUG (''Failed to close browser properly: '' @ str_playwright e'),
                    GcCollect])"
    by (cases "playwright_browser self")
       (auto simp: close_def close_body_def browser_close_def playwright_stop_def)
  show "case close env self t of
         (r1, s1, t1) \<Rightarrow> close env s1 t1 = (Inr (), s1, t1 @ [GcCollect])"
  proof (cases "close env self t")
    case (fields r1 s1 t1)
    with close_clears [of env self t]
    have "playwright_browser s1 = None" and "playwright s1 = None"
      by simp_all
    then have "close env s1 t1 = (Inr (), s1, t1 @ [GcCollect])"
      by (rule close_cleared)
    with fields show ?thesis
      by simp
  qed
  show "close env (fst (Browser_init cfg t0)) t
       = (Inr (), fst (Browser_init cfg t0), t @ [GcCollect])"
    by (rule close_cleared) (simp_all add: Browser_init_def)
qed

theorem close_swallows_exceptions_witness:
  "\<not> force_keep_browser_alive (config connected_browser)
   \<and> playwright_browser connected_browser = Some 0 \<and> playwright connected_browser = Some 0
   \<and> close_result broken_stop_env 0 = None
   \<and> stop_result broken_stop_env 0 = Some (PlaywrightError ''Connection closed'')
   \<and> close broken_stop_env connected_browser [] =
       (Inr (), standard_browser,
        [BrowserClose 0, PlaywrightStop 0,
         Log DEBUG ''Failed to close browser properly: Connection closed'', GcCollect])
   \<and> close_result broken_close_env 0 = Some (PlaywrightError ''Target closed'')
   \<and> fst (close broken_close_env connected_browser []) = Inr ()"
  using close_swallows_exceptions
    [of broken_stop_env connected_browser "[]" 0 "PlaywrightError ''Target closed''" 0
        "PlaywrightError ''Connection closed''"]
    close_swallows_exceptions
    [of broken_close_env connected_browser "[]" 0 "PlaywrightError ''Target closed''" 0
        "PlaywrightError ''Connection closed''"]
  by (simp add: connected_browser_def standard_browser_def Browser_init_def default_config_def
      broken_close_env_def broken_stop_env_def fresh_env_def)

text \<open>
  The claim C5 as the specification words it fails: when the task is cancelled while it
  waits for the browser to close, the references are cleared and \<open>CancelledError\<close> leaves
  \<open>close\<close>. The driver is not stopped.
\<close>

theorem close_cancelled_counterexample:
  "close cancelling_env connected_browser [] =
     (Inl CancelledError, standard_browser, [BrowserClose 0, GcCollect])"
  by (simp add: close_def close_body_def browser_close_def cancelling_env_def fresh_env_def
      connected_browser_def standard_browser_def Browser_init_def default_config_def)

text \<open>
  C8. With \<open>_force_keep_browser_alive\<close> set, \<open>close\<close> calls neither the browser's
  \<open>close\<close> nor the driver's \<open>stop\<close> (the garbage collector is its only call) and sets
  both references to \<open>None\<close>.
\<close>

theorem close_keep_alive:
  "force_keep_browser_alive (config self) \<Longrightarrow>
     close env self t =
       (Inr (), self\<lparr>playwright_browser := None, playwright := None\<rparr>, t @ [GcCollect])
     \<and> calls is_close (snd (snd (close env self t))) = calls is_close t
     \<and> calls is_stop (snd (snd (close env self t))) = calls is_stop t"
  by (simp add: close_def close_body_def)

theorem close_keep_alive_witness:
  "force_keep_browser_alive (config kept_alive_browser)
   \<and> playwright_browser kept_alive_browser = Some 0
   \<and> playwright kept_alive_browser = Some 0
   \<and> snd (snd (close fresh_env kept_alive_browser [])) = [GcCollect]
   \<and> playwright_browser (fst (snd (close fresh_env kept_alive_browser []))) = None
   \<and> playwright (fst (snd (close fresh_env kept_alive_browser []))) = None"
  using close_keep_alive [of kept_alive_browser fresh_env "[]"]
  by (simp add: kept_alive_browser_def Browser_init_def default_config_def)



section \<open>The reuse-or-launch strategy\<close>

text \<open>
  C9. When the first probe answers with status 200, \<open>_setup_browser_with_instance\<close>
  makes exactly three calls, the probe, the log line and \<open>connect_over_cdp\<close> on
  \<open>http://localhost:9222\<close> with a timeout of 20000, and its result is the result of that
  attach. \<open>subprocess.Popen\<close> is not called.
\<close>

theorem reuse_never_spawns:
  assumes "chrome_instance_path (config self) = Some path" and "path \<noteq> []"
    and "http_get env (calls is_get t) = Inr 200"
  shows "setup_browser_with_instance env self pw t =
       (raise_playwright (attach_result env (calls is_attach t)),
        t @ [RequestsGet version_url 2, Log INFO ''Reusing existing Chrome instance'',
             ConnectOverCdp pw endpoint_url (Some 20000)])
     \<and> calls is_popen (snd (setup_browser_with_instance env self pw t)) = calls is_popen t"
proof -
  have r: "reuse_existing env pw t =
      (case attach_result env (calls is_attach t) of
         Inl e \<Rightarrow> Inl (Playwright e) | Inr b \<Rightarrow> Inr (Some b),
       t @ [RequestsGet version_url 2, Log INFO ''Reusing existing Chrome instance'',
             ConnectOverCdp pw endpoint_url (Some 20000)])"
    using assms(3)
    by (cases "attach_result env (calls is_attach t)")
       (simp_all add: reuse_existing_def requests_get_def connect_over_cdp_def)
  show ?thesis
    using assms(1,2) r
    by (cases "attach_result env (calls is_attach t)")
       (simp_all add: setup_browser_with_instance_def)
qed

theorem reuse_never_spawns_witness:
  "chrome_instance_path (config instance_browser) = Some chrome_path \<and> chrome_path \<noteq> []
   \<and> http_get running_env (calls is_get []) = Inr 200
   \<and> setup_browser_with_instance running_env instance_browser 0 [] =
       (Inr 0,
        [RequestsGet ''http://localhost:9222/json/version'' 2,
         Log INFO ''Reusing existing Chrome instance'',
         ConnectOverCdp 0 ''http://localhost:9222'' (Some 20000)])"
  using reuse_never_spawns [of instance_browser chrome_path running_env "[]" 0]
  by (simp add: instance_browser_def Browser_init_def default_config_def chrome_path_def
      running_env_def fresh_env_def version_url_def endpoint_url_def)

lemma calls_probe_sleep [simp]:
  "calls p (concat (replicate n [a, b])) =
     n * ((if p a then 1 else 0) + (if p b then 1 else 0))"
  by (induction n) simp_all

lemma poll_unreachable:
  "(\<forall>k<n. unreachable (http_get env (calls is_get t + k))) \<Longrightarrow>
     poll env n t = (Inr (), t @ concat (replicate n [RequestsGet version_url 2, Sleep 1]))"
proof (induction n arbitrary: t)
  case 0
  then show ?case by simp
next
  case (Suc n)
  have first: "unreachable (http_get env (calls is_get t))"
    using Suc.prems by force
  have rest: "\<forall>k<n. unreachable
      (http_get env (calls is_get (t @ [RequestsGet version_url 2, Sleep 1]) + k))"
    using Suc.prems by force
  have step: "poll env (Suc n) t = poll env n (t @ [RequestsGet version_url 2, Sleep 1])"
    using first
    by (cases "http_get env (calls is_get t)") (simp_all add: requests_get_def unreachable_def)
  show ?case
    using Suc.IH [OF rest] step by simp
qed

lemma start_new_instance_unreachable:
  assumes "popen_result env (calls is_popen t) = None"
    and "\<forall>k<10. unreachable (http_get env (calls is_get t + k))"
  shows "start_new_instance env self pw path t =
     ((case attach_result env (calls is_attach t) of
         Inr b \<Rightarrow> Inr b | Inl e \<Rightarrow> Inl (RuntimeError chrome_debug_message)),
      t @ [Popen ([path, ''--remote-debugging-port=9222''] @ extra_chromium_args (config self))]
        @ concat (replicate 10 [RequestsGet version_url 2, Sleep 1])
        @ [ConnectOverCdp pw endpoint_url (Some 20000)]
        @ (case attach_result env (calls is_attach t) of
             Inr b \<Rightarrow> []
           | Inl e \<Rightarrow> [Log ERROR (''Failed to start a new Chrome instance.: ''
                                     @ str_playwright e)]))"
proof -
  let ?t1 = "t @ [Popen ([path, ''--remote-debugging-port=9222''] @ extra_chromium_args (config self))]"
  let ?ps = "concat (replicate 10 [RequestsGet version_url 2, Sleep 1])"
  have "\<forall>k<10. unreachable (http_get env (calls is_get ?t1 + k))"
    using assms(2) by simp
  then have p: "poll env 10 ?t1 = (Inr (), ?t1 @ ?ps)"
    by (rule poll_unreachable)
  have a: "calls is_attach (?t1 @ ?ps) = calls is_attach t"
    by (simp add: calls_def)
  show ?thesis
  proof (cases "attach_result env (calls is_attach t)")
    case (Inl e)
    then show ?thesis
      using assms(1) p a
      by (simp add: start_new_instance_def subprocess_Popen_def connect_over_cdp_def
          del: calls_append calls_Cons)
  next
    case (Inr b)
    then show ?thesis
      using assms(1) p a
      by (simp add: start_new_instance_def subprocess_Popen_def connect_over_cdp_def
          del: calls_append calls_Cons)
  qed
qed

text \<open>
  C4, as the code has it. When neither the first probe nor any of the ten probes of the
  loop finds the endpoint (each gives a status other than 200 or raises a
  \<open>requests.ConnectionError\<close>) and the spawn itself succeeds, the strategy makes exactly
  these calls: the first probe (and its debug log after an exception), the spawn, ten
  times a probe followed by a sleep of one second, and one \<open>connect_over_cdp\<close>. The
  outcome is decided by that attach alone: the \<open>RuntimeError\<close> when it fails (after an
  error log), the new handle when it succeeds.
\<close>

theorem poll_exhausted_then_final_attach:
  assumes "chrome_instance_path (config self) = Some path" and "path \<noteq> []"
    and "\<forall>k<11. unreachable (http_get env (calls is_get t + k))"
    and "popen_result env (calls is_popen t) = None"
  shows "setup_browser_with_instance env self pw t =
       ((case attach_result env (calls is_attach t) of
           Inr b \<Rightarrow> Inr b | Inl e \<Rightarrow> Inl (RuntimeError chrome_debug_message)),
        t @ [RequestsGet version_url 2]
          @ (case http_get env (calls is_get t) of
               Inr status_code \<Rightarrow> []
             | Inl e \<Rightarrow> [Log DEBUG ''No existing Chrome instance found, starting a new one''])
          @ [Popen ([path, ''--remote-debugging-port=9222''] @ extra_chromium_args (config self))]
          @ concat (replicate 10 [RequestsGet version_url 2, Sleep 1])
          @ [ConnectOverCdp pw endpoint_url (Some 20000)]
          @ (case attach_result env (calls is_attach t) of
               Inr b \<Rightarrow> []
             | Inl e \<Rightarrow> [Log ERROR (''Failed to start a new Chrome instance.: ''
                                       @ str_playwright e)]))"
proof -
  let ?g = "RequestsGet version_url 2"
  have u0: "unreachable (http_get env (calls is_get t))"
    using assms(3) by force
  have later: "unreachable (http_get env (Suc (calls is_get t + k)))" if "k < 10" for k
  proof -
    from that have "Suc k < 11" by simp
    with assms(3) have "unreachable (http_get env (calls is_get t + Suc k))" by blast
    then show ?thesis by simp
  qed
  have rest: "\<And>l. calls is_get l = 0 \<Longrightarrow>
       \<forall>k<10. unreachable (http_get env (calls is_get (t @ [?g] @ l) + k))"
    using later by simp
  show ?thesis
  proof (cases "http_get env (calls is_get t)")
    case (Inr code)
    with u0 have ne: "code \<noteq> 200" by (simp add: unreachable_def)
    have r: "reuse_existing env pw t = (Inr None, t @ [?g])"
      using Inr ne by (simp add: reuse_existing_def requests_get_def)
    show ?thesis
      using start_new_instance_unreachable [of env "t @ [?g]" self pw path] assms(4) rest [of "[]"]
        assms(1,2) r Inr
      by (simp add: setup_browser_with_instance_def)
  next
    case (Inl e)
    with u0 have ce: "is_ConnectionError (Requests e)" by (simp add: unreachable_def)
    let ?l = "Log DEBUG ''No existing Chrome instance found, starting a new one''"
    have r: "reuse_existing env pw t = (Inl (Requests e), t @ [?g])"
      using Inl by (simp add: reuse_existing_def requests_get_def)
    show ?thesis
      using start_new_instance_unreachable [of env "t @ [?g, ?l]" self pw path] assms(4)
        rest [of "[?l]"] assms(1,2) r ce Inl
      by (simp add: setup_browser_with_instance_def)
  qed
qed

theorem poll_exhausted_then_final_attach_witness:
  "chrome_instance_path (config instance_browser) = Some chrome_path \<and> chrome_path \<noteq> []
   \<and> list_all unreachable (map (http_get refused_env) [0..<11])
   \<and> popen_result refused_env (calls is_popen []) = None
   \<and> fst (setup_browser_with_instance refused_env instance_browser 0 [])
       = Inl (RuntimeError chrome_debug_message)
   \<and> calls is_popen (snd (setup_browser_with_instance refused_env instance_browser 0 [])) = 1
   \<and> calls is_get (snd (setup_browser_with_instance refused_env instance_browser 0 [])) = 11
   \<and> calls is_sleep (snd (setup_browser_with_instance refused_env instance_browser 0 [])) = 10
   \<and> calls is_attach (snd (setup_browser_with_instance refused_env instance_browser 0 [])) = 1"
  using poll_exhausted_then_final_attach [of instance_browser chrome_path refused_env "[]" 0]
  by (simp add: instance_browser_def Browser_init_def default_config_def chrome_path_def
      refused_env_def fresh_env_def unreachable_def list_all_iff)

text \<open>
  The claim C4 as the specification words it fails: in \<open>fresh_env\<close> no probe ever finds
  the endpoint, all ten probes of the loop are made, and the final attach succeeds, so the
  strategy returns a handle and raises nothing.
\<close>

theorem poll_exhausted_counterexample:
  "map (http_get fresh_env) [0..<11] = replicate 11 (Inl (ConnectionError ''Connection refused''))
   \<and> fst (setup_browser_with_instance fresh_env instance_browser 0 []) = Inr 0
   \<and> calls is_get (snd (setup_browser_with_instance fresh_env instance_browser 0 [])) = 11"
  by (simp add: setup_browser_with_instance_def reuse_existing_def start_new_instance_def
      requests_get_def subprocess_Popen_def connect_over_cdp_def
      instance_browser_def Browser_init_def default_config_def chrome_path_def fresh_env_def
      eval_nat_numeral upt_rec)

section \<open>Strategy selection\<close>

lemma poll_calls:
  "\<not> p (RequestsGet version_url 2) \<Longrightarrow> \<not> p (Sleep 1) \<Longrightarrow>
     calls p (snd (poll env n t)) = calls p t"
  by (induction n arbitrary: t) (auto simp: requests_get_def split: sum.splits)

lemma log_and_reraise_fst [simp]: "fst (log_and_reraise x) = fst x"
  by (cases x, cases "fst x") auto

lemma log_and_reraise_calls:
  "\<forall>l m. \<not> p (Log l m) \<Longrightarrow> calls p (snd (log_and_reraise x)) = calls p (snd x)"
  by (cases x, cases "fst x") auto

lemma log_and_reraise_attach [simp]:
  "calls is_attach (snd (log_and_reraise x)) = calls is_attach (snd x)"
  by (rule log_and_reraise_calls) simp

lemma log_and_reraise_start [simp]:
  "calls is_start (snd (log_and_reraise x)) = calls is_start (snd x)"
  by (rule log_and_reraise_calls) simp

lemma setup_cdp_attach:
  "calls is_attach (snd (setup_cdp env self pw t)) =
     calls is_attach t + (if truthy (cdp_url (config self)) then 1 else 0)"
  by (auto simp: setup_cdp_def connect_over_cdp_def split: option.splits)

lemma setup_wss_attach:
  "calls is_attach (snd (setup_wss env self pw t)) =
     calls is_attach t + (if truthy (wss_url (config self)) then 1 else 0)"
  by (auto simp: setup_wss_def connect_def split: option.splits)

lemma setup_standard_browser_attach:
  "calls is_attach (snd (setup_standard_browser env self pw t)) = calls is_attach t + 1"
  by (simp add: setup_standard_browser_def launch_def)

text \<open>The second part of the strategy attaches at most once, and once when it succeeds.\<close>

lemma start_new_instance_attach:
  "calls is_attach (snd (start_new_instance env self pw path t)) \<le> calls is_attach t + 1
   \<and> (\<forall>b. fst (start_new_instance env self pw path t) = Inr b \<longrightarrow>
          calls is_attach (snd (start_new_instance env self pw path t)) = calls is_attach t + 1)"
proof -
  let ?t1 = "t @ [Popen ([path, ''--remote-debugging-port=9222''] @ extra_chromium_args (config self))]"
  obtain r2 t2 where p: "poll env 10 ?t1 = (r2, t2)"
    by (cases "poll env 10 ?t1")
  have "calls is_attach (snd (poll env 10 ?t1)) = calls is_attach ?t1"
    by (rule poll_calls) simp_all
  with p have c: "calls is_attach t2 = calls is_attach t"
    by simp
  show ?thesis
    using p c
    by (auto simp: start_new_instance_def subprocess_Popen_def connect_over_cdp_def
        split: sum.splits option.splits)
qed

lemma reuse_existing_attach:
  "reuse_existing env pw t = (r, t1) \<Longrightarrow>
     (case r of
        Inr (Some b) \<Rightarrow> calls is_attach t1 = calls is_attach t + 1
      | Inr None \<Rightarrow> calls is_attach t1 = calls is_attach t
      | Inl e \<Rightarrow> if is_ConnectionError e then calls is_attach t1 = calls is_attach t
                  else calls is_attach t1 \<le> calls is_attach t + 1)"
  by (cases "http_get env (calls is_get t)"; cases "attach_result env (calls is_attach t)")
     (auto simp: reuse_existing_def requests_get_def connect_over_cdp_def split: if_splits)

lemma setup_browser_with_instance_attach:
  "calls is_attach (snd (setup_browser_with_instance env self pw t)) \<le> calls is_attach t + 1
   \<and> (\<forall>b. fst (setup_browser_with_instance env self pw t) = Inr b \<longrightarrow>
          calls is_attach (snd (setup_browser_with_instance env self pw t)) = calls is_attach t + 1)"
proof (cases "reuse_existing env pw t")
  case (Pair r t1)
  note ra = reuse_existing_attach [OF Pair]
  note sn = start_new_instance_attach [of env self pw]
  show ?thesis
  proof (cases r)
    case (Inl e)
    then show ?thesis
      using Pair ra sn [of _ "t1 @ [Log DEBUG ''No existing Chrome instance found, starting a new one'']"]
      by (auto simp: setup_browser_with_instance_def split: option.splits)
  next
    case (Inr ob)
    then show ?thesis
      using Pair ra sn [of _ t1]
      by (cases ob) (auto simp: setup_browser_with_instance_def split: option.splits)
  qed
qed

lemma setup_browser_attach:
  "calls is_attach (snd (setup_browser env self pw t)) \<le> calls is_attach t + 1"
  using setup_browser_with_instance_attach [of env self pw t]
  by (simp add: setup_browser_def setup_cdp_attach setup_wss_attach
      setup_standard_browser_attach)

lemma setup_browser_attach_success:
  assumes "fst (setup_browser env self pw t) = Inr b"
  shows "calls is_attach (snd (setup_browser env self pw t)) = calls is_attach t + 1"
  using setup_browser_with_instance_attach [of env self pw t] assms
  by (simp add: setup_browser_def setup_cdp_attach setup_wss_attach
      setup_standard_browser_attach split: if_splits)

text \<open>
  C2. \<open>_setup_browser\<close> runs the one strategy that the precedence order of the
  specification selects, whatever the other fields hold, and hands on its result; and it
  makes at most one call that produces a browser (\<open>connect_over_cdp\<close>, \<open>connect\<close> or
  \<open>launch\<close>), so a strategy that fails is not followed by another one.
\<close>

theorem setup_browser_precedence:
  "setup_browser env self pw t =
     log_and_reraise (run_strategy (precedence_spec (config self)) env self pw t)
   \<and> calls is_attach (snd (setup_browser env self pw t)) \<le> calls is_attach t + 1"
proof (rule conjI)
  show "setup_browser env self pw t =
     log_and_reraise (run_strategy (precedence_spec (config self)) env self pw t)"
    by (simp add: setup_browser_def precedence_spec_def)
  show "calls is_attach (snd (setup_browser env self pw t)) \<le> calls is_attach t + 1"
    by (rule setup_browser_attach)
qed

text \<open>
  With all three fields set and a remote endpoint that refuses, the CDP attach is the only
  attempt: its error is logged and raised, and neither the socket URL nor the local
  executable is tried.
\<close>

theorem setup_browser_precedence_witness:
  "precedence_spec (config crowded_browser) = RemoteAttach
   \<and> setup_browser refused_env crowded_browser 0 [] =
       (Inl (Playwright (PlaywrightError ''connect ECONNREFUSED'')),
        [Log INFO ''Connecting to remote browser via CDP http://remote:9222'',
         ConnectOverCdp 0 ''http://remote:9222'' None,
         Log ERROR ''Failed to initialize Playwright browser: connect ECONNREFUSED''])"
  using setup_browser_precedence [of refused_env crowded_browser 0 "[]"]
  by (simp add: precedence_spec_def crowded_browser_def Browser_init_def default_config_def
      chrome_path_def refused_env_def fresh_env_def setup_cdp_def connect_over_cdp_def)

section \<open>Probes that time out\<close>

text \<open>
  C3. A probe that ends in \<open>requests.ReadTimeout\<close> (the port accepts the connection and
  no response arrives within the two seconds) is not passed over: \<open>ReadTimeout\<close> is not a
  \<open>requests.ConnectionError\<close>, so the exception leaves \<open>_setup_browser_with_instance\<close>,
  from the first probe before anything is spawned, and from a probe of the loop after the
  spawn and without further attempts.
\<close>

theorem read_timeout_leaves_strategy:
  "setup_browser_with_instance silent_env instance_browser 0 [] =
     (Inl (Requests (ReadTimeout ''Read timed out.'')),
      [RequestsGet ''http://localhost:9222/json/version'' 2])
   \<and> setup_browser_with_instance slow_start_env instance_browser 0 [] =
     (Inl (Requests (ReadTimeout ''Read timed out.'')),
      [RequestsGet ''http://localhost:9222/json/version'' 2,
       Log DEBUG ''No existing Chrome instance found, starting a new one'',
       Popen [''/usr/bin/google-chrome'', ''--remote-debugging-port=9222''],
       RequestsGet ''http://localhost:9222/json/version'' 2])"
  by (simp add: setup_browser_with_instance_def reuse_existing_def start_new_instance_def
      requests_get_def subprocess_Popen_def
      instance_browser_def Browser_init_def default_config_def chrome_path_def
      silent_env_def slow_start_env_def fresh_env_def version_url_def eval_nat_numeral)

section \<open>Creation\<close>



section \<open>Several callers\<close>

lemma start_new_instance_start_popen:
  "calls is_start (snd (start_new_instance env self pw path t)) = calls is_start t
   \<and> calls is_popen (snd (start_new_instance env self pw path t)) = calls is_popen t + 1"
proof -
  let ?t1 = "t @ [Popen ([path, ''--remote-debugging-port=9222''] @ extra_chromium_args (config self))]"
  obtain r2 t2 where p: "poll env 10 ?t1 = (r2, t2)"
    by (cases "poll env 10 ?t1")
  have "calls is_start (snd (poll env 10 ?t1)) = calls is_start ?t1"
    by (rule poll_calls) simp_all
  with p have c: "calls is_start t2 = calls is_start t"
    by simp
  have "calls is_popen (snd (poll env 10 ?t1)) = calls is_popen ?t1"
    by (rule poll_calls) simp_all
  with p have d: "calls is_popen t2 = calls is_popen t + 1"
    by simp
  show ?thesis
    using p c d
    by (auto simp: start_new_instance_def subprocess_Popen_def connect_over_cdp_def
        split: sum.splits option.splits)
qed

lemma reuse_existing_start_popen:
  "calls is_start (snd (reuse_existing env pw t)) = calls is_start t
   \<and> calls is_popen (snd (reuse_existing env pw t)) = calls is_popen t"
  by (auto simp: reuse_existing_def requests_get_def connect_over_cdp_def
      split: sum.splits prod.splits)

lemma setup_browser_with_instance_start_popen:
  "calls is_start (snd (setup_browser_with_instance env self pw t)) = calls is_start t
   \<and> calls is_popen (snd (setup_browser_with_instance env self pw t)) \<le> calls is_popen t + 1"
proof (cases "reuse_existing env pw t")
  case (Pair r t1)
  with reuse_existing_start_popen [of env pw t]
  have c: "calls is_start t1 = calls is_start t" "calls is_popen t1 = calls is_popen t"
    by simp_all
  note sn = start_new_instance_start_popen [of env self pw]
  show ?thesis
    using Pair c sn [of _ t1]
      sn [of _ "t1 @ [Log DEBUG ''No existing Chrome instance found, starting a new one'']"]
    by (auto simp: setup_browser_with_instance_def split: option.splits sum.splits)
qed

lemma setup_browser_start_popen:
  "calls is_start (snd (setup_browser env self pw t)) = calls is_start t
   \<and> calls is_popen (snd (setup_browser env self pw t)) \<le> calls is_popen t + 1"
proof -
  have l: "calls is_popen (snd (log_and_reraise x)) = calls is_popen (snd x)" for x
    by (rule log_and_reraise_calls) simp
  show ?thesis
    using setup_browser_with_instance_start_popen [of env self pw t]
    by (auto simp: setup_browser_def l setup_cdp_def setup_wss_def setup_standard_browser_def
        connect_over_cdp_def connect_def launch_def split: option.splits)
qed

lemma sequential_calls_connected:
  "playwright_browser self = Some b \<Longrightarrow>
     sequential_calls env n self t = (replicate n (Inr b), self, t)"
  by (induction n) (simp_all add: get_playwright_browser_def)

text \<open>
  A task that is resumed until it is finished does what the coroutine does when it is
  awaited.
\<close>

lemma single_task:
  "run_schedule env [0, 0, 0] ([Created], self, t) =
     (case get_playwright_browser env self t of (r, s1, t1) \<Rightarrow> ([Done r], s1, t1))"
  by (auto simp: get_playwright_browser_def init_def split: option.splits prod.splits sum.splits)

text \<open>
  The claim C1 as the specification words it fails. Two calls are made on a new object
  with the default configuration before either has finished: both find
  \<open>playwright_browser\<close> to be \<open>None\<close>, both start a driver and both launch a browser.
  The first caller gets handle 0 and the second handle 1, and the object keeps the one
  stored last.
\<close>

theorem concurrent_callers_counterexample:
  "run_schedule fresh_env [0, 1, 0, 1, 0, 1] ([Created, Created], standard_browser, []) =
     ([Done (Inr 0), Done (Inr 1)],
      standard_browser\<lparr>playwright := Some 1, playwright_browser := Some 1\<rparr>,
      [PlaywrightStart, PlaywrightStart,
       Launch 0 False (standard_args @ disable_security_args standard_browser) None,
       Launch 1 False (standard_args @ disable_security_args standard_browser) None])"
  by (simp add: async_playwright_start_def setup_browser_def setup_standard_browser_def
      launch_def standard_browser_def Browser_init_def default_config_def fresh_env_def)

text \<open>
  C1, as the code has it. When the calls are made one after another and the first one
  succeeds, every call returns the handle of the first, which the object stores, and all
  the calls together start one driver, make one attach or launch and spawn at most one
  process.
\<close>

theorem sequential_callers_single_handle:
  assumes "playwright_browser self = None"
    and "fst (get_playwright_browser env self t) = Inr b"
  shows "fst (sequential_calls env (Suc n) self t) = replicate (Suc n) (Inr b)
     \<and> playwright_browser (fst (snd (sequential_calls env (Suc n) self t))) = Some b
     \<and> calls is_start (snd (snd (sequential_calls env (Suc n) self t))) = calls is_start t + 1
     \<and> calls is_attach (snd (snd (sequential_calls env (Suc n) self t))) = calls is_attach t + 1
     \<and> calls is_popen (snd (snd (sequential_calls env (Suc n) self t))) \<le> calls is_popen t + 1"
proof -
  have g: "get_playwright_browser env self t = init env self t"
    using assms(1) by (simp add: get_playwright_browser_def)
  obtain pw where pw: "start_result env (calls is_start t) = Inr pw"
    using assms(2) unfolding g
    by (cases "start_result env (calls is_start t)")
       (auto simp: init_def async_playwright_start_def)
  let ?t1 = "t @ [PlaywrightStart]"
  obtain r2 t2 where sb: "setup_browser env self pw ?t1 = (r2, t2)"
    by (cases "setup_browser env self pw ?t1")
  have r2: "r2 = Inr b"
    using assms(2) pw sb unfolding g
    by (cases r2) (simp_all add: init_def async_playwright_start_def)
  let ?s = "self\<lparr>playwright := Some pw, playwright_browser := Some b\<rparr>"
  have first: "get_playwright_browser env self t = (Inr b, ?s, t2)"
    unfolding g using pw sb r2 by (simp add: init_def async_playwright_start_def)
  have later: "sequential_calls env n ?s t2 = (replicate n (Inr b), ?s, t2)"
    by (rule sequential_calls_connected) simp
  have all: "sequential_calls env (Suc n) self t = (replicate (Suc n) (Inr b), ?s, t2)"
    using first later by simp
  have "fst (setup_browser env self pw ?t1) = Inr b"
    using sb r2 by simp
  from setup_browser_attach_success [OF this] sb
  have a: "calls is_attach t2 = calls is_attach t + 1"
    by simp
  from setup_browser_start_popen [of env self pw ?t1] sb
  have s: "calls is_start t2 = calls is_start t + 1"
    and p: "calls is_popen t2 \<le> calls is_popen t + 1"
    by simp_all
  show ?thesis
    unfolding all using a s p by simp
qed

theorem sequential_callers_single_handle_witness:
  "playwright_browser standard_browser = None
   \<and> fst (get_playwright_browser fresh_env standard_browser []) = Inr 0
   \<and> fst (sequential_calls fresh_env 3 standard_browser []) = [Inr 0, Inr 0, Inr 0]
   \<and> calls is_start (snd (snd (sequential_calls fresh_env 3 standard_browser []))) = 1
   \<and> calls is_attach (snd (snd (sequential_calls fresh_env 3 standard_browser []))) = 1"
proof -
  have n: "playwright_browser standard_browser = None"
    by (simp add: standard_browser_def Browser_init_def)
  have f: "fst (get_playwright_browser fresh_env standard_browser []) = Inr 0"
    by (simp add: get_playwright_browser_def init_def async_playwright_start_def
        setup_browser_def setup_standard_browser_def launch_def
        standard_browser_def Browser_init_def default_config_def fresh_env_def)
  show ?thesis
    using n f sequential_callers_single_handle [OF n f, of 2]
    by (simp add: eval_nat_numeral)
qed

end
